theory Spec2Isabelle
  imports Complex_Main
begin

section \<open>Vacuum probe templates (probetemplate.py)\<close>

text \<open>
  A shallow embedding of \<^verbatim>\<open>py4DSTEM/process/braggdiskdetection/probetemplate.py\<close>.

  Conventions of the model.
  \<^item> A two-dimensional numpy array is a shape together with an item function; only the
    items inside the shape are ever read by the operations below.
  \<^item> A Python call either raises or returns: results are \<open>py_error + 'a\<close>, with
    \<open>Inl\<close> for the exception.
  \<^item> The collaborators imported from \<^verbatim>\<open>..utils\<close> and from scipy
    (\<^verbatim>\<open>get_shift\<close>, \<^verbatim>\<open>get_shifted_ar\<close>, \<^verbatim>\<open>get_CoM\<close>,
    \<^verbatim>\<open>binary_opening\<close>, \<^verbatim>\<open>binary_dilation\<close>) are parameters, collected in a
    record. Each of the array-valued ones returns an array of the shape it was given, which
    is built into the wrappers \<open>get_shifted_ar\<close>, \<open>binary_opening\<close> and
    \<open>binary_dilation\<close>; so all arrays that meet in one call share one shape, as numpy's
    elementwise operations require.
  \<^item> Intensities of a scan are finite numbers, modelled as \<open>real\<close>: arithmetic is exact
    (rounding and overflow of float64 are not modelled). The averaging loop divides only
    by the loop counter \<open>n \<ge> 1\<close>. The kernel generators divide by sums computed from
    the data, so there the IEEE special values (infinities and NaN) are modelled, see
    \<open>npfloat\<close>.
\<close>

subsection \<open>Arrays\<close>

record 'a ndarray =
  shape :: "nat \<times> nat"
  item :: "nat \<Rightarrow> nat \<Rightarrow> 'a"

text \<open>The index pairs of a shape in row-major order, and the items in that order.\<close>

definition indices :: "nat \<times> nat \<Rightarrow> (nat \<times> nat) list" where
  "indices sh = List.product [0..<fst sh] [0..<snd sh]"

definition ravel :: "'a ndarray \<Rightarrow> 'a list" where
  "ravel a = map (\<lambda>(i, j). item a i j) (indices (shape a))"

definition of_rows :: "'a list list \<Rightarrow> 'a ndarray" where
  "of_rows rows =
     \<lparr>shape = (length rows, case rows of [] \<Rightarrow> 0 | r # _ \<Rightarrow> length r),
      item = (\<lambda>i j. rows ! i ! j)\<rparr>"

definition to_rows :: "'a ndarray \<Rightarrow> 'a list list" where
  "to_rows a = map (\<lambda>i. map (\<lambda>j. item a i j) [0..<snd (shape a)]) [0..<fst (shape a)]"

text \<open>Elementwise operations (operands of one shape) and operations with a scalar.\<close>

definition np_map :: "('a \<Rightarrow> 'b) \<Rightarrow> 'a ndarray \<Rightarrow> 'b ndarray" where
  "np_map f a = \<lparr>shape = shape a, item = (\<lambda>i j. f (item a i j))\<rparr>"

definition np_map2 :: "('a \<Rightarrow> 'b \<Rightarrow> 'c) \<Rightarrow> 'a ndarray \<Rightarrow> 'b ndarray \<Rightarrow> 'c ndarray" where
  "np_map2 f a b = \<lparr>shape = shape a, item = (\<lambda>i j. f (item a i j) (item b i j))\<rparr>"

datatype py_error = IndexError | ZeroDivisionError | ValueError

text \<open>\<^verbatim>\<open>np.max\<close> raises ValueError on an array without items.\<close>

definition np_max :: "real ndarray \<Rightarrow> py_error + real" where
  "np_max a = (case ravel a of [] \<Rightarrow> Inl ValueError | x # xs \<Rightarrow> Inr (fold max xs x))"

subsection \<open>The collaborators\<close>

record 'a collab =
  get_shift :: "'a ndarray \<Rightarrow> 'a ndarray \<Rightarrow> 'a \<times> 'a"
  get_CoM :: "'a ndarray \<Rightarrow> 'a \<times> 'a"
  shift_prim :: "nat \<times> nat \<Rightarrow> (nat \<Rightarrow> nat \<Rightarrow> 'a) \<Rightarrow> 'a \<Rightarrow> 'a \<Rightarrow> nat \<Rightarrow> nat \<Rightarrow> 'a"
  opening_prim :: "nat \<times> nat \<Rightarrow> (nat \<Rightarrow> nat \<Rightarrow> bool) \<Rightarrow> int \<Rightarrow> nat \<Rightarrow> nat \<Rightarrow> bool"
  dilation_prim :: "nat \<times> nat \<Rightarrow> (nat \<Rightarrow> nat \<Rightarrow> bool) \<Rightarrow> int \<Rightarrow> nat \<Rightarrow> nat \<Rightarrow> bool"

definition get_shifted_ar :: "'a collab \<Rightarrow> 'a ndarray \<Rightarrow> 'a \<Rightarrow> 'a \<Rightarrow> 'a ndarray" where
  "get_shifted_ar E ar xshift yshift =
     \<lparr>shape = shape ar, item = shift_prim E (shape ar) (item ar) xshift yshift\<rparr>"

definition binary_opening :: "'a collab \<Rightarrow> bool ndarray \<Rightarrow> int \<Rightarrow> bool ndarray" where
  "binary_opening E msk iterations =
     \<lparr>shape = shape msk, item = opening_prim E (shape msk) (item msk) iterations\<rparr>"

definition binary_dilation :: "'a collab \<Rightarrow> bool ndarray \<Rightarrow> int \<Rightarrow> bool ndarray" where
  "binary_dilation E msk iterations =
     \<lparr>shape = shape msk, item = dilation_prim E (shape msk) (item msk) iterations\<rparr>"

subsection \<open>The datacube\<close>

text \<open>
  The class DataCube is not part of the source file; the function reads its attributes
  \<^verbatim>\<open>data4D\<close>, \<^verbatim>\<open>R_Nx\<close> and \<^verbatim>\<open>R_N\<close>. The four-dimensional array has the
  shape \<open>(R_Nx, R_Ny, Q_Nx, Q_Ny)\<close>.
\<close>

record datacube =
  R_Nx :: nat
  R_Ny :: nat
  Q_Nx :: nat
  Q_Ny :: nat
  data4D :: "nat \<Rightarrow> nat \<Rightarrow> nat \<Rightarrow> nat \<Rightarrow> real"

definition R_N :: "datacube \<Rightarrow> nat" where
  \<comment> \<open>Modelled from the spec: the class DataCube is missing; the total pattern count
      is the number of scan positions, rows times columns.\<close>
  "R_N dc = R_Nx dc * R_Ny dc"

text \<open>
  \<^verbatim>\<open>datacube.data4D[Rx,Ry,:,:]\<close> with non-negative indices: the diffraction pattern
  at a scan position, or IndexError when the position is outside the scan.
\<close>

definition pattern :: "datacube \<Rightarrow> nat \<Rightarrow> nat \<Rightarrow> real ndarray" where
  "pattern dc Rx Ry = \<lparr>shape = (Q_Nx dc, Q_Ny dc), item = data4D dc Rx Ry\<rparr>"

definition read_DP :: "datacube \<Rightarrow> nat \<Rightarrow> nat \<Rightarrow> py_error + real ndarray" where
  "read_DP dc Rx Ry =
     (if Rx < R_Nx dc \<and> Ry < R_Ny dc then Inr (pattern dc Rx Ry) else Inl IndexError)"

subsection \<open>get_average_probe_from_vacuum_scan\<close>

text \<open>
  What a call on a datacube leaves behind: the value returned or the exception raised,
  the scan positions whose pattern was requested, in order, and the datacube afterwards.
\<close>

record 'a outcome =
  result :: "py_error + 'a"
  reads :: "(nat \<times> nat) list"
  cube :: datacube

text \<open>The loop body's last line: \<^verbatim>\<open>probe = probe*(n-1)/n + curr_DP_shifted/n\<close>.\<close>

definition probe_update :: "nat \<Rightarrow> real ndarray \<Rightarrow> real ndarray \<Rightarrow> real ndarray" where
  "probe_update n probe curr_DP_shifted =
     np_map2 (+)
       (np_map (\<lambda>v. v * real_of_int (int n - 1) / real n) probe)
       (np_map (\<lambda>v. v / real n) curr_DP_shifted)"

text \<open>
  The loop \<^verbatim>\<open>for n in range(1, datacube.R_N)\<close>, as a recursion over the remaining
  values of \<open>n\<close>. \<^verbatim>\<open>int(n/datacube.R_Nx)\<close> is the floor of the quotient (exact for
  every scan that fits in memory) and raises ZeroDivisionError for \<open>R_Nx = 0\<close>.
\<close>

fun average_loop ::
  "real collab \<Rightarrow> datacube \<Rightarrow> nat list \<Rightarrow> real ndarray \<Rightarrow> (nat \<times> nat) list
     \<Rightarrow> (py_error + real ndarray) \<times> (nat \<times> nat) list" where
  "average_loop E dc [] probe seen = (Inr probe, seen)"
| "average_loop E dc (n # ns) probe seen =
     (if R_Nx dc = 0 then (Inl ZeroDivisionError, seen)
      else
        let Rx = n div R_Nx dc;
            Ry = n mod R_Nx dc
        in case read_DP dc Rx Ry of
             Inl e \<Rightarrow> (Inl e, seen @ [(Rx, Ry)])
           | Inr curr_DP \<Rightarrow>
               let (xshift, yshift) = get_shift E probe curr_DP;
                   curr_DP_shifted = get_shifted_ar E curr_DP xshift yshift
               in average_loop E dc ns (probe_update n probe curr_DP_shifted)
                    (seen @ [(Rx, Ry)]))"

text \<open>The three mask lines and the return value \<^verbatim>\<open>probe*mask\<close>.\<close>

definition probe_mask :: "real collab \<Rightarrow> real ndarray \<Rightarrow> real \<Rightarrow> real \<Rightarrow> int \<Rightarrow> int \<Rightarrow> bool ndarray" where
  "probe_mask E probe probe_max mask_threshold mask_expansion mask_opening =
     (let msk = np_map (\<lambda>v. v > probe_max * mask_threshold) probe;
          msk = binary_opening E msk mask_opening;
          msk = binary_dilation E msk mask_expansion
      in msk)"

definition apply_mask :: "real ndarray \<Rightarrow> bool ndarray \<Rightarrow> real ndarray" where
  "apply_mask probe msk = np_map2 (\<lambda>v b. v * (if b then 1 else 0)) probe msk"

definition mask_probe :: "real collab \<Rightarrow> real ndarray \<Rightarrow> real \<Rightarrow> int \<Rightarrow> int \<Rightarrow> py_error + real ndarray" where
  "mask_probe E probe mask_threshold mask_expansion mask_opening =
     (case np_max probe of
        Inl e \<Rightarrow> Inl e
      | Inr probe_max \<Rightarrow>
          Inr (apply_mask probe
                 (probe_mask E probe probe_max mask_threshold mask_expansion mask_opening)))"

text \<open>What follows the loop: the mask and the return, or the loop's exception.\<close>

definition after_loop ::
  "real collab \<Rightarrow> datacube \<Rightarrow> real \<Rightarrow> int \<Rightarrow> int
     \<Rightarrow> (py_error + real ndarray) \<times> (nat \<times> nat) list \<Rightarrow> real ndarray outcome" where
  "after_loop E dc mask_threshold mask_expansion mask_opening r =
     (case r of
        (Inl e, seen) \<Rightarrow> \<lparr>result = Inl e, reads = seen, cube = dc\<rparr>
      | (Inr probe, seen) \<Rightarrow>
          \<lparr>result = mask_probe E probe mask_threshold mask_expansion mask_opening,
           reads = seen, cube = dc\<rparr>)"

definition get_average_probe_from_vacuum_scan ::
  "real collab \<Rightarrow> datacube \<Rightarrow> real \<Rightarrow> int \<Rightarrow> int \<Rightarrow> real ndarray outcome" where
  "get_average_probe_from_vacuum_scan E dc mask_threshold mask_expansion mask_opening =
     (case read_DP dc 0 0 of
        Inl e \<Rightarrow> \<lparr>result = Inl e, reads = [(0, 0)], cube = dc\<rparr>
      | Inr probe0 \<Rightarrow>
          after_loop E dc mask_threshold mask_expansion mask_opening
            (average_loop E dc [1..<R_N dc] probe0 [(0, 0)]))"

text \<open>The defaults of the keyword parameters.\<close>

definition default_mask_threshold :: real where "default_mask_threshold = 2 / 10"
definition default_mask_expansion :: int where "default_mask_expansion = 12"
definition default_mask_opening :: int where "default_mask_opening = 3"

subsection \<open>The stubs\<close>

text \<open>Both bodies are \<^verbatim>\<open>pass\<close>: the call returns Python's None.\<close>

definition get_average_probe_from_ROI :: "datacube \<Rightarrow> 'b list \<Rightarrow> real ndarray option outcome" where
  "get_average_probe_from_ROI dc args = \<lparr>result = Inr None, reads = [], cube = dc\<rparr>"

definition get_synthetic_probe :: "datacube \<Rightarrow> 'b list \<Rightarrow> real ndarray option outcome" where
  "get_synthetic_probe dc args = \<lparr>result = Inr None, reads = [], cube = dc\<rparr>"

subsection \<open>float64 values with infinities and NaN\<close>

text \<open>
  The kernel generators divide by sums of the data; numpy's float division does not raise
  on a zero divisor (it warns and returns an infinity or NaN), so their values are
  float64 numbers with the IEEE special values. Finite arithmetic is exact; zero is
  unsigned (a non-zero number divided by zero is the infinity of the number's sign).
\<close>

datatype npfloat = Finite real | PInf | NInf | NaN

fun signed_inf :: "real \<Rightarrow> npfloat" where
  "signed_inf s = (if s > 0 then PInf else if s < 0 then NInf else NaN)"

fun np_neg :: "npfloat \<Rightarrow> npfloat" where
  "np_neg (Finite a) = Finite (- a)"
| "np_neg PInf = NInf"
| "np_neg NInf = PInf"
| "np_neg NaN = NaN"

fun np_add :: "npfloat \<Rightarrow> npfloat \<Rightarrow> npfloat" where
  "np_add (Finite a) (Finite b) = Finite (a + b)"
| "np_add NaN y = NaN"
| "np_add x NaN = NaN"
| "np_add PInf NInf = NaN"
| "np_add NInf PInf = NaN"
| "np_add PInf y = PInf"
| "np_add x PInf = PInf"
| "np_add NInf y = NInf"
| "np_add x NInf = NInf"

definition np_sub :: "npfloat \<Rightarrow> npfloat \<Rightarrow> npfloat" where
  "np_sub x y = np_add x (np_neg y)"

fun np_mul :: "npfloat \<Rightarrow> npfloat \<Rightarrow> npfloat" where
  "np_mul (Finite a) (Finite b) = Finite (a * b)"
| "np_mul NaN y = NaN"
| "np_mul x NaN = NaN"
| "np_mul (Finite a) PInf = signed_inf a"
| "np_mul (Finite a) NInf = signed_inf (- a)"
| "np_mul PInf (Finite b) = signed_inf b"
| "np_mul NInf (Finite b) = signed_inf (- b)"
| "np_mul PInf PInf = PInf"
| "np_mul PInf NInf = NInf"
| "np_mul NInf PInf = NInf"
| "np_mul NInf NInf = PInf"

fun np_div :: "npfloat \<Rightarrow> npfloat \<Rightarrow> npfloat" where
  "np_div (Finite a) (Finite b) = (if b = 0 then signed_inf a else Finite (a / b))"
| "np_div NaN y = NaN"
| "np_div x NaN = NaN"
| "np_div (Finite a) PInf = Finite 0"
| "np_div (Finite a) NInf = Finite 0"
| "np_div PInf (Finite b) = (if b < 0 then NInf else PInf)"
| "np_div NInf (Finite b) = (if b < 0 then PInf else NInf)"
| "np_div PInf PInf = NaN"
| "np_div PInf NInf = NaN"
| "np_div NInf PInf = NaN"
| "np_div NInf NInf = NaN"

fun np_exp :: "npfloat \<Rightarrow> npfloat" where
  "np_exp (Finite a) = Finite (exp a)"
| "np_exp PInf = PInf"
| "np_exp NInf = Finite 0"
| "np_exp NaN = NaN"

fun np_sqrt :: "npfloat \<Rightarrow> npfloat" where
  "np_sqrt (Finite a) = (if a < 0 then NaN else Finite (sqrt a))"
| "np_sqrt PInf = PInf"
| "np_sqrt NInf = NaN"
| "np_sqrt NaN = NaN"

text \<open>\<^verbatim>\<open>x**2\<close>.\<close>

definition np_square :: "npfloat \<Rightarrow> npfloat" where
  "np_square x = np_mul x x"

text \<open>\<^verbatim>\<open>np.sum\<close> over all items; the sum of no items is 0.\<close>

definition np_sum :: "npfloat ndarray \<Rightarrow> npfloat" where
  "np_sum a = foldl np_add (Finite 0) (ravel a)"

text \<open>Division of every item by a scalar: \<^verbatim>\<open>ar/s\<close>.\<close>

definition np_divide :: "npfloat ndarray \<Rightarrow> npfloat \<Rightarrow> npfloat ndarray" where
  "np_divide a s = np_map (\<lambda>v. np_div v s) a"

subsection \<open>The kernel generators\<close>

text \<open>
  \<^verbatim>\<open>qy,qx = np.meshgrid(np.arange(Q_Ny),np.arange(Q_Nx))\<close>: both arrays have the shape
  \<open>(Q_Nx, Q_Ny)\<close> of the probe; \<open>qx\<close> holds the row index and \<open>qy\<close> the column index.
\<close>

definition meshgrid_qx :: "nat \<Rightarrow> nat \<Rightarrow> npfloat ndarray" where
  "meshgrid_qx nx ny = \<lparr>shape = (nx, ny), item = (\<lambda>i j. Finite (real i))\<rparr>"

definition meshgrid_qy :: "nat \<Rightarrow> nat \<Rightarrow> npfloat ndarray" where
  "meshgrid_qy nx ny = \<lparr>shape = (nx, ny), item = (\<lambda>i j. Finite (real j))\<rparr>"

text \<open>\<^verbatim>\<open>(qx-xCoM)**2 + (qy-yCoM)**2\<close>.\<close>

definition radius2 :: "nat \<times> nat \<Rightarrow> npfloat \<Rightarrow> npfloat \<Rightarrow> npfloat ndarray" where
  "radius2 sh xCoM yCoM =
     (let (nx, ny) = sh;
          qx = meshgrid_qx nx ny;
          qy = meshgrid_qy nx ny
      in np_map2 np_add
           (np_map (\<lambda>v. np_square (np_sub v xCoM)) qx)
           (np_map (\<lambda>v. np_square (np_sub v yCoM)) qy))"

text \<open>\<^verbatim>\<open>ar/np.sum(ar)\<close>.\<close>

definition normalised :: "npfloat ndarray \<Rightarrow> npfloat ndarray" where
  "normalised ar = np_divide ar (np_sum ar)"

definition get_probe_kernel :: "npfloat collab \<Rightarrow> npfloat ndarray \<Rightarrow> py_error + npfloat ndarray" where
  "get_probe_kernel E probe =
     (let (xCoM, yCoM) = get_CoM E probe;
          probe = normalised probe;
          probe_kernel = get_shifted_ar E probe (np_neg xCoM) (np_neg yCoM)
      in Inr probe_kernel)"

text \<open>
  The array assigned to \<^verbatim>\<open>subtr_gaussian\<close> before its normalisation:
  \<^verbatim>\<open>np.exp(-q2 / (2*qstd2*sigma_probe_scale**2))\<close>.
\<close>

definition subtr_gaussian :: "npfloat collab \<Rightarrow> npfloat ndarray \<Rightarrow> npfloat \<Rightarrow> npfloat ndarray" where
  "subtr_gaussian E probe sigma_probe_scale =
     (let (xCoM, yCoM) = get_CoM E probe;
          q2 = radius2 (shape probe) xCoM yCoM;
          qstd2 = np_div (np_sum (np_map2 np_mul q2 probe)) (np_sum probe)
      in np_map (\<lambda>v. np_exp (np_div (np_neg v)
                     (np_mul (np_mul (Finite 2) qstd2) (np_square sigma_probe_scale)))) q2)"

text \<open>The value of \<^verbatim>\<open>probe_kernel\<close> before the shift (source lines 113 to 117).\<close>

definition subtrgaussian_template ::
  "npfloat collab \<Rightarrow> npfloat ndarray \<Rightarrow> npfloat \<Rightarrow> npfloat ndarray" where
  "subtrgaussian_template E probe sigma_probe_scale =
     (let probe_template_norm = normalised probe;
          gaussian = normalised (subtr_gaussian E probe sigma_probe_scale)
      in np_map2 np_sub probe_template_norm gaussian)"

definition get_probe_kernel_subtrgaussian ::
  "npfloat collab \<Rightarrow> npfloat ndarray \<Rightarrow> npfloat \<Rightarrow> py_error + npfloat ndarray" where
  "get_probe_kernel_subtrgaussian E probe sigma_probe_scale =
     (let (xCoM, yCoM) = get_CoM E probe;
          probe_kernel = subtrgaussian_template E probe sigma_probe_scale;
          probe_kernel = get_shifted_ar E probe_kernel (np_neg xCoM) (np_neg yCoM)
      in Inr probe_kernel)"

text \<open>
  The array \<^verbatim>\<open>logistic_annulus\<close>:
  \<^verbatim>\<open>1/(1+np.exp(4*qr/blurwidth)) - 1/(1+np.exp(4*(qr-trenchwidth)/blurwidth))\<close>
  with \<^verbatim>\<open>qr = np.sqrt((qx-xCoM)**2 + (qy-yCoM)**2) - radius\<close>.
\<close>

definition logistic :: "npfloat \<Rightarrow> npfloat \<Rightarrow> npfloat" where
  "logistic v blurwidth =
     np_div (Finite 1) (np_add (Finite 1) (np_exp (np_div (np_mul (Finite 4) v) blurwidth)))"

definition logistic_annulus ::
  "npfloat collab \<Rightarrow> npfloat ndarray \<Rightarrow> npfloat \<Rightarrow> npfloat \<Rightarrow> npfloat \<Rightarrow> npfloat ndarray" where
  "logistic_annulus E probe radius trenchwidth blurwidth =
     (let (xCoM, yCoM) = get_CoM E probe;
          qr = np_map np_sqrt (radius2 (shape probe) xCoM yCoM);
          qr = np_map (\<lambda>v. np_sub v radius) qr
      in np_map (\<lambda>v. np_sub (logistic v blurwidth) (logistic (np_sub v trenchwidth) blurwidth)) qr)"

text \<open>The value of \<^verbatim>\<open>probe_kernel\<close> before the shift (source lines 153 to 156).\<close>

definition logistictrench_template ::
  "npfloat collab \<Rightarrow> npfloat ndarray \<Rightarrow> npfloat \<Rightarrow> npfloat \<Rightarrow> npfloat \<Rightarrow> npfloat ndarray" where
  "logistictrench_template E probe radius trenchwidth blurwidth =
     (let probe_template_norm = normalised probe;
          logistic_annulus_norm = normalised (logistic_annulus E probe radius trenchwidth blurwidth)
      in np_map2 np_sub probe_template_norm logistic_annulus_norm)"

definition get_probe_kernel_logistictrench ::
  "npfloat collab \<Rightarrow> npfloat ndarray \<Rightarrow> npfloat \<Rightarrow> npfloat \<Rightarrow> npfloat
     \<Rightarrow> py_error + npfloat ndarray" where
  "get_probe_kernel_logistictrench E probe radius trenchwidth blurwidth =
     (let (xCoM, yCoM) = get_CoM E probe;
          probe_kernel = logistictrench_template E probe radius trenchwidth blurwidth;
          probe_kernel = get_shifted_ar E probe_kernel (np_neg xCoM) (np_neg yCoM)
      in Inr probe_kernel)"

subsection \<open>Stand-ins for the collaborators\<close>

text \<open>
  The theorems below hold for all collaborators. To run the functions on concrete data,
  these stand-ins are used: a circular shift by whole pixels, the intensity-weighted
  centre of mass, a shift estimate for data that is already aligned, and a morphology
  that leaves the mask as it is.
\<close>

definition roll :: "nat \<times> nat \<Rightarrow> (nat \<Rightarrow> nat \<Rightarrow> 'a) \<Rightarrow> int \<Rightarrow> int \<Rightarrow> nat \<Rightarrow> nat \<Rightarrow> 'a" where
  \<comment> \<open>Modelled from the spec: get_shifted_ar is missing; a circular (wraparound)
      translation, here by whole pixels.\<close>
  "roll sh a dx dy i j =
     (if i < fst sh \<and> j < snd sh
      then a (nat ((int i - dx) mod int (fst sh))) (nat ((int j - dy) mod int (snd sh)))
      else a i j)"

definition centroid :: "npfloat ndarray \<Rightarrow> npfloat \<times> npfloat" where
  \<comment> \<open>Modelled from the spec: get_CoM is missing; the intensity-weighted mean of the
      row and of the column index over the full array.\<close>
  "centroid ar =
     (let (nx, ny) = shape ar;
          tot_intens = np_sum ar
      in (np_div (np_sum (np_map2 np_mul (meshgrid_qx nx ny) ar)) tot_intens,
          np_div (np_sum (np_map2 np_mul (meshgrid_qy nx ny) ar)) tot_intens))"

definition kernel_collab :: "npfloat collab" where
  "kernel_collab =
     \<lparr>get_shift = (\<lambda>ar1 ar2. (Finite 0, Finite 0)),
      get_CoM = centroid,
      shift_prim = (\<lambda>sh a x y.
         case (x, y) of
           (Finite dx, Finite dy) \<Rightarrow> roll sh a \<lfloor>dx\<rfloor> \<lfloor>dy\<rfloor>
         | _ \<Rightarrow> (\<lambda>i j. NaN)),
      opening_prim = (\<lambda>sh m n. m),
      dilation_prim = (\<lambda>sh m n. m)\<rparr>"

definition scan_collab :: "real collab" where
  "scan_collab =
     \<lparr>get_shift = (\<lambda>ar1 ar2. (0, 0)),
      get_CoM = (\<lambda>ar. (0, 0)),
      shift_prim = (\<lambda>sh a x y. roll sh a \<lfloor>x\<rfloor> \<lfloor>y\<rfloor>),
      opening_prim = (\<lambda>sh m n. m),
      dilation_prim = (\<lambda>sh m n. m)\<rparr>"

subsection \<open>Auxiliary notions for the statements\<close>

fun the_real :: "npfloat \<Rightarrow> real" where
  "the_real (Finite a) = a"
| "the_real x = 0"

fun is_finite :: "npfloat \<Rightarrow> bool" where
  "is_finite (Finite a) = True"
| "is_finite x = False"

text \<open>The shift by the given offsets leaves the sum of every array of the shape as it is.\<close>

text \<open>The datacube with the pattern at one scan position replaced.\<close>

definition with_pattern :: "datacube \<Rightarrow> nat \<Rightarrow> nat \<Rightarrow> (nat \<Rightarrow> nat \<Rightarrow> real) \<Rightarrow> datacube" where
  "with_pattern dc Rx Ry p = dc\<lparr>data4D := (data4D dc)(Rx := (data4D dc Rx)(Ry := p))\<rparr>"

definition preserves_sum :: "npfloat collab \<Rightarrow> nat \<times> nat \<Rightarrow> npfloat \<Rightarrow> npfloat \<Rightarrow> bool" where
  "preserves_sum E sh xshift yshift \<longleftrightarrow>
     (\<forall>a. shape a = sh \<longrightarrow> np_sum (get_shifted_ar E a xshift yshift) = np_sum a)"

text \<open>The shift by the given offsets maps an array that is NaN throughout to such an array.\<close>

definition propagates_NaN :: "npfloat collab \<Rightarrow> nat \<times> nat \<Rightarrow> npfloat \<Rightarrow> npfloat \<Rightarrow> bool" where
  "propagates_NaN E sh xshift yshift \<longleftrightarrow>
     (\<forall>a. shape a = sh \<and> list_all (\<lambda>v. v = NaN) (ravel a) \<longrightarrow>
          list_all (\<lambda>v. v = NaN) (ravel (get_shifted_ar E a xshift yshift)))"



subsection \<open>Example data\<close>

text \<open>A probe of one row with its centre of mass at column 1, and a probe of zeros.\<close>

definition probe_121 :: "npfloat ndarray" where
  "probe_121 = of_rows [[Finite 1, Finite 2, Finite 1]]"

definition zero_probe :: "npfloat ndarray" where
  "zero_probe = of_rows [[Finite 0, Finite 0, Finite 0]]"


definition repeated_cube :: "nat \<Rightarrow> nat \<Rightarrow> real list list \<Rightarrow> datacube" where
  "repeated_cube rx ry rows =
     \<lparr>R_Nx = rx, R_Ny = ry, Q_Nx = fst (shape (of_rows rows)), Q_Ny = snd (shape (of_rows rows)),
      data4D = (\<lambda>Rx Ry. item (of_rows rows))\<rparr>"

section \<open>Properties\<close>


subsection \<open>Arrays and sums\<close>

lemma shape_np_map [simp]: "shape (np_map f a) = shape a"
  by (simp add: np_map_def)

lemma item_np_map [simp]: "item (np_map f a) i j = f (item a i j)"
  by (simp add: np_map_def)

lemma shape_np_map2 [simp]: "shape (np_map2 f a b) = shape a"
  by (simp add: np_map2_def)

lemma item_np_map2 [simp]: "item (np_map2 f a b) i j = f (item a i j) (item b i j)"
  by (simp add: np_map2_def)

lemma shape_get_shifted_ar [simp]: "shape (get_shifted_ar E a x y) = shape a"
  by (simp add: get_shifted_ar_def)

lemma foldl_np_add_Finite:
  "foldl np_add acc xs = Finite s \<Longrightarrow>
     is_finite acc \<and> (\<forall>x \<in> set xs. is_finite x) \<and> s = the_real acc + sum_list (map the_real xs)"
proof (induction xs arbitrary: acc)
  case Nil
  then show ?case by simp
next
  case (Cons x xs)
  from Cons.prems have f: "foldl np_add (np_add acc x) xs = Finite s" by simp
  from Cons.IH [OF f] have ih: "is_finite (np_add acc x)" "\<forall>x \<in> set xs. is_finite x"
    "s = the_real (np_add acc x) + sum_list (map the_real xs)" by auto
  from ih(1) obtain a b where "acc = Finite a" "x = Finite b"
    by (cases acc; cases x) auto
  with ih show ?case by simp
qed

lemma foldl_np_add_all_finite:
  "\<forall>x \<in> set xs. is_finite x \<Longrightarrow>
     foldl np_add (Finite a) xs = Finite (a + sum_list (map the_real xs))"
proof (induction xs arbitrary: a)
  case Nil
  then show ?case by simp
next
  case (Cons x xs)
  then obtain b where "x = Finite b" by (cases x) auto
  with Cons show ?case by (simp add: add.assoc)
qed


lemma ravel_np_map2:
  "ravel (np_map2 f a b) = map (\<lambda>(i, j). f (item a i j) (item b i j)) (indices (shape a))"
  by (simp add: ravel_def np_map2_def)

lemma sum_divide_list:
  assumes "foldl np_add (Finite 0) (map f idx) = Finite s" and "c \<noteq> 0"
  shows "foldl np_add (Finite 0) (map (\<lambda>p. np_div (f p) (Finite c)) idx) = Finite (s / c)"
proof -
  from foldl_np_add_Finite [OF assms(1)]
  have fin: "\<forall>p \<in> set idx. is_finite (f p)" and s: "s = sum_list (map (\<lambda>p. the_real (f p)) idx)"
    by (simp_all add: comp_def)
  have eq: "map (\<lambda>p. np_div (f p) (Finite c)) idx = map (\<lambda>p. Finite (the_real (f p) / c)) idx"
  proof (rule map_cong [OF refl])
    fix p assume "p \<in> set idx"
    with fin obtain r where "f p = Finite r" by (cases "f p") auto
    then show "np_div (f p) (Finite c) = Finite (the_real (f p) / c)" using assms(2) by simp
  qed
  have "foldl np_add (Finite 0) (map (\<lambda>p. Finite (the_real (f p) / c)) idx)
          = Finite (0 + sum_list (map the_real (map (\<lambda>p. Finite (the_real (f p) / c)) idx)))"
    by (rule foldl_np_add_all_finite) simp
  also have "sum_list (map the_real (map (\<lambda>p. Finite (the_real (f p) / c)) idx)) = s / c"
    by (simp add: comp_def divide_inverse sum_list_mult_const s)
  finally show ?thesis unfolding eq by simp
qed

lemma sum_sub_list:
  assumes "foldl np_add (Finite 0) (map f idx) = Finite x"
    and "foldl np_add (Finite 0) (map g idx) = Finite y"
  shows "foldl np_add (Finite 0) (map (\<lambda>p. np_sub (f p) (g p)) idx) = Finite (x - y)"
proof -
  from foldl_np_add_Finite [OF assms(1)]
  have ff: "\<forall>p \<in> set idx. is_finite (f p)" and x: "x = sum_list (map (\<lambda>p. the_real (f p)) idx)"
    by (simp_all add: comp_def)
  from foldl_np_add_Finite [OF assms(2)]
  have fg: "\<forall>p \<in> set idx. is_finite (g p)" and y: "y = sum_list (map (\<lambda>p. the_real (g p)) idx)"
    by (simp_all add: comp_def)
  have eq: "map (\<lambda>p. np_sub (f p) (g p)) idx = map (\<lambda>p. Finite (the_real (f p) - the_real (g p))) idx"
  proof (rule map_cong [OF refl])
    fix p assume p: "p \<in> set idx"
    from p ff obtain a where "f p = Finite a" by (cases "f p") auto
    moreover from p fg obtain b where "g p = Finite b" by (cases "g p") auto
    ultimately show "np_sub (f p) (g p) = Finite (the_real (f p) - the_real (g p))"
      by (simp add: np_sub_def)
  qed
  have "foldl np_add (Finite 0) (map (\<lambda>p. Finite (the_real (f p) - the_real (g p))) idx)
          = Finite (0 + sum_list (map the_real (map (\<lambda>p. Finite (the_real (f p) - the_real (g p))) idx)))"
    by (rule foldl_np_add_all_finite) simp
  also have "sum_list (map the_real (map (\<lambda>p. Finite (the_real (f p) - the_real (g p))) idx))
               = x - y"
    by (simp add: comp_def sum_list_subtractf x y)
  finally show ?thesis unfolding eq by simp
qed

lemma np_sum_normalised:
  assumes "np_sum a = Finite s" and "s \<noteq> 0"
  shows "np_sum (np_divide a (Finite s)) = Finite 1"
proof -
  from assms(1) have "foldl np_add (Finite 0) (map (\<lambda>(i, j). item a i j) (indices (shape a))) = Finite s"
    by (simp add: np_sum_def ravel_def)
  from sum_divide_list [OF this assms(2)] assms(2)
  show ?thesis
    by (simp add: np_sum_def np_divide_def ravel_def np_map_def case_prod_unfold)
qed

lemma np_sum_sub:
  assumes "np_sum a = Finite x" and "np_sum b = Finite y" and "shape b = shape a"
  shows "np_sum (np_map2 np_sub a b) = Finite (x - y)"
proof -
  from assms have "foldl np_add (Finite 0) (map (\<lambda>(i, j). item a i j) (indices (shape a))) = Finite x"
    and "foldl np_add (Finite 0) (map (\<lambda>(i, j). item b i j) (indices (shape a))) = Finite y"
    by (simp_all add: np_sum_def ravel_def)
  from sum_sub_list [OF this]
  show ?thesis
    by (simp add: np_sum_def ravel_np_map2 case_prod_unfold)
qed



lemma shape_normalised [simp]: "shape (normalised a) = shape a"
  by (simp add: normalised_def np_divide_def)

lemma shape_radius2 [simp]: "shape (radius2 sh x y) = sh"
  by (simp add: radius2_def meshgrid_qx_def split: prod.splits)

lemma shape_subtr_gaussian [simp]: "shape (subtr_gaussian E probe sigma) = shape probe"
  by (simp add: subtr_gaussian_def Let_def split: prod.splits)

lemma shape_logistic_annulus [simp]: "shape (logistic_annulus E probe r t b) = shape probe"
  by (simp add: logistic_annulus_def Let_def split: prod.splits)

lemma get_probe_kernel_eq:
  "get_probe_kernel E probe =
     Inr (get_shifted_ar E (normalised probe)
            (np_neg (fst (get_CoM E probe))) (np_neg (snd (get_CoM E probe))))"
  by (simp add: get_probe_kernel_def split: prod.splits)

lemma get_probe_kernel_subtrgaussian_eq:
  "get_probe_kernel_subtrgaussian E probe sigma =
     Inr (get_shifted_ar E (subtrgaussian_template E probe sigma)
            (np_neg (fst (get_CoM E probe))) (np_neg (snd (get_CoM E probe))))"
  by (simp add: get_probe_kernel_subtrgaussian_def split: prod.splits)

lemma get_probe_kernel_logistictrench_eq:
  "get_probe_kernel_logistictrench E probe r t b =
     Inr (get_shifted_ar E (logistictrench_template E probe r t b)
            (np_neg (fst (get_CoM E probe))) (np_neg (snd (get_CoM E probe))))"
  by (simp add: get_probe_kernel_logistictrench_def split: prod.splits)

lemma np_sum_normalised':
  assumes "np_sum a = Finite s" and "s \<noteq> 0"
  shows "np_sum (normalised a) = Finite 1"
  using np_sum_normalised [OF assms] assms(1) by (simp add: normalised_def)

lemma np_sum_template:
  assumes "np_sum probe = Finite s" and "s \<noteq> 0"
    and "np_sum bg = Finite g" and "g \<noteq> 0" and "shape bg = shape probe"
  shows "np_sum (np_map2 np_sub (normalised probe) (normalised bg)) = Finite 0"
  using np_sum_sub [OF np_sum_normalised' [OF assms(1,2)] np_sum_normalised' [OF assms(3,4)]] assms(5)
  by simp

lemma np_add_commute: "np_add x y = np_add y x"
  by (cases x; cases y) simp_all

lemma np_add_assoc: "np_add (np_add x y) z = np_add x (np_add y z)"
  by (cases x; cases y; cases z) simp_all

lemma np_add_zero_left [simp]: "np_add (Finite 0) x = x"
  by (cases x) simp_all

lemma np_add_left_commute: "np_add x (np_add y z) = np_add y (np_add x z)"
  by (metis np_add_assoc np_add_commute)

lemma one_plus_exp_nonzero [simp]: "1 + exp (x::real) \<noteq> 0"
  using exp_gt_zero [of x] by linarith

lemma half_less_logistic: "x < 0 \<Longrightarrow> 1 / 2 < 1 / (1 + exp (x::real))"
proof -
  assume "x < 0"
  then have "1 + exp x < 2" by simp
  moreover have "0 < 1 + exp x" using exp_gt_zero [of x] by linarith
  ultimately show ?thesis
    using divide_strict_left_mono [of "1 + exp x" 2 1] by simp
qed

lemma list_all_ravel: "list_all P (ravel a) \<longleftrightarrow> (\<forall>p \<in> set (indices (shape a)). P (item a (fst p) (snd p)))"
  by (simp add: ravel_def list_all_iff case_prod_unfold)

lemma foldl_np_add_zeros:
  "\<forall>x \<in> set xs. x = Finite 0 \<Longrightarrow> foldl np_add (Finite 0) xs = Finite 0"
  by (induction xs) simp_all

lemma np_sum_all_zero:
  assumes "list_all (\<lambda>v. v = Finite 0) (ravel probe)"
  shows "np_sum probe = Finite 0"
  using assms unfolding np_sum_def by (intro foldl_np_add_zeros) (simp add: list_all_iff)

lemma normalised_all_zero:
  assumes "list_all (\<lambda>v. v = Finite 0) (ravel probe)"
  shows "list_all (\<lambda>v. v = NaN) (ravel (normalised probe))"
  using assms np_sum_all_zero [OF assms]
  by (simp add: list_all_ravel normalised_def np_divide_def)

lemma template_NaN_left:
  assumes "list_all (\<lambda>v. v = NaN) (ravel a)"
  shows "list_all (\<lambda>v. v = NaN) (ravel (np_map2 np_sub a b))"
  using assms by (simp add: list_all_ravel np_sub_def)

lemma np_add_NaN_right [simp]: "np_add x NaN = NaN"
  by (cases x) simp_all

lemma template_NaN_right:
  assumes "list_all (\<lambda>v. v = NaN) (ravel b)" and "shape b = shape a"
  shows "list_all (\<lambda>v. v = NaN) (ravel (np_map2 np_sub a b))"
  using assms by (simp add: list_all_ravel np_sub_def)

lemma np_sub_zero [simp]: "np_sub v (Finite 0) = v"
  by (cases v) (simp_all add: np_sub_def)

lemma np_sub_self: "np_sub x x = Finite 0 \<or> np_sub x x = NaN"
  by (cases x) (simp_all add: np_sub_def)

lemma annulus_zero_width:
  "list_all (\<lambda>v. v = Finite 0 \<or> v = NaN) (ravel (logistic_annulus E probe radius (Finite 0) blurwidth))"
  by (simp add: list_all_ravel logistic_annulus_def np_sub_self split: prod.splits)

lemma foldl_np_add_zero_or_NaN:
  "\<forall>x \<in> set xs. x = Finite 0 \<or> x = NaN \<Longrightarrow> acc = Finite 0 \<or> acc = NaN \<Longrightarrow>
     foldl np_add acc xs = Finite 0 \<or> foldl np_add acc xs = NaN"
proof (induction xs arbitrary: acc)
  case Nil
  then show ?case by simp
next
  case (Cons x xs)
  have "np_add acc x = Finite 0 \<or> np_add acc x = NaN"
    using Cons.prems by auto
  with Cons show ?case by simp
qed

lemma normalised_zero_or_NaN:
  assumes "list_all (\<lambda>v. v = Finite 0 \<or> v = NaN) (ravel a)"
  shows "list_all (\<lambda>v. v = NaN) (ravel (normalised a))"
proof -
  have s: "np_sum a = Finite 0 \<or> np_sum a = NaN"
    unfolding np_sum_def using assms
    by (intro foldl_np_add_zero_or_NaN) (simp_all add: list_all_iff)
  have "np_div v (np_sum a) = NaN" if "v = Finite 0 \<or> v = NaN" for v
    using that s by auto
  with assms show ?thesis
    by (simp add: list_all_ravel normalised_def np_divide_def)
qed

text \<open>Unfolding the array operations, to evaluate a call on concrete data.\<close>

lemmas array_eval = np_sum_def ravel_def indices_def of_rows_def to_rows_def np_map_def
  np_map2_def np_divide_def normalised_def get_shifted_ar_def

lemmas kernel_eval = array_eval kernel_collab_def centroid_def meshgrid_qx_def meshgrid_qy_def
  roll_def floor_minus radius2_def np_sub_def np_square_def subtr_gaussian_def
  subtrgaussian_template_def logistic_annulus_def logistic_def logistictrench_template_def

lemma probe_121_sum: "np_sum probe_121 = Finite 4"
  by (simp add: probe_121_def array_eval)

lemma probe_121_CoM: "get_CoM kernel_collab probe_121 = (Finite 0, Finite 1)"
  by (simp add: probe_121_def kernel_eval)

lemma probe_121_shift_preserves_sum:
  "preserves_sum kernel_collab (shape probe_121)
     (np_neg (fst (get_CoM kernel_collab probe_121)))
     (np_neg (snd (get_CoM kernel_collab probe_121)))"
  unfolding probe_121_CoM
  by (simp add: preserves_sum_def probe_121_def kernel_eval np_add_assoc np_add_commute
      np_add_left_commute numeral_2_eq_2)

subsection \<open>The averaging loop\<close>

lemma shape_pattern [simp]: "shape (pattern dc Rx Ry) = (Q_Nx dc, Q_Ny dc)"
  by (simp add: pattern_def)

lemma shape_probe_update [simp]: "shape (probe_update n probe shifted) = shape probe"
  by (simp add: probe_update_def)




lemma probe_update_same:
  "0 < n \<Longrightarrow> probe_update n probe probe = probe"
  by (cases probe) (simp add: probe_update_def np_map_def np_map2_def fun_eq_iff field_simps)

lemma average_loop_identical:
  assumes "0 < R_Nx dc"
    and "\<forall>n \<in> set ns. 0 < n \<and> n div R_Nx dc < R_Nx dc \<and> n mod R_Nx dc < R_Ny dc
            \<and> pattern dc (n div R_Nx dc) (n mod R_Nx dc) = P"
    and "get_shift E P P = (0, 0)"
    and "get_shifted_ar E P 0 0 = P"
  shows "average_loop E dc ns P seen
           = (Inr P, seen @ map (\<lambda>n. (n div R_Nx dc, n mod R_Nx dc)) ns)"
  using assms(2)
proof (induction ns arbitrary: seen)
  case Nil
  then show ?case by simp
next
  case (Cons n ns)
  then have r: "read_DP dc (n div R_Nx dc) (n mod R_Nx dc) = Inr P" and n: "0 < n"
    by (simp_all add: read_DP_def)
  have "average_loop E dc (n # ns) P seen
          = average_loop E dc ns (probe_update n P P) (seen @ [(n div R_Nx dc, n mod R_Nx dc)])"
    using r assms(1,3,4) by (simp add: Let_def)
  also have "probe_update n P P = P" using n by (rule probe_update_same)
  finally show ?case using Cons by simp
qed







lemma with_pattern_fields [simp]:
  "R_Nx (with_pattern dc Rx Ry p) = R_Nx dc" "R_Ny (with_pattern dc Rx Ry p) = R_Ny dc"
  "Q_Nx (with_pattern dc Rx Ry p) = Q_Nx dc" "Q_Ny (with_pattern dc Rx Ry p) = Q_Ny dc"
  "R_N (with_pattern dc Rx Ry p) = R_N dc"
  by (simp_all add: with_pattern_def R_N_def)







lemma roll_zero [simp]: "roll sh a 0 0 = a"
  by (auto simp: roll_def fun_eq_iff)

text \<open>Unfolding the averager, to evaluate a call on a concrete datacube.\<close>

lemmas scan_eval = get_average_probe_from_vacuum_scan_def read_DP_def pattern_def R_N_def
  after_loop_def mask_probe_def np_max_def probe_mask_def apply_mask_def binary_opening_def
  binary_dilation_def scan_collab_def probe_update_def get_shifted_ar_def
  ravel_def indices_def of_rows_def to_rows_def np_map_def np_map2_def Let_def upt_conv_Cons

lemma np_max_Max:
  assumes "ravel a \<noteq> []"
  shows "np_max a = Inr (Max (set (ravel a)))"
proof -
  from assms obtain x xs where r: "ravel a = x # xs" by (cases "ravel a") auto
  show ?thesis unfolding np_max_def r by (simp only: Max.set_eq_fold list.case)
qed

lemma length_ravel: "length (ravel a) = fst (shape a) * snd (shape a)"
  by (simp add: ravel_def indices_def)

lemma ravel_nonempty: "0 < fst (shape a) \<Longrightarrow> 0 < snd (shape a) \<Longrightarrow> ravel a \<noteq> []"
  using length_ravel [of a] by auto

subsection \<open>The kernel generators\<close>

text \<open>
  Claim C2: for every probe whose items sum to a non-zero number, the kernel returned by
  get_probe_kernel sums to 1, given that the shift applied to it (by the negated centre
  of mass) preserves the total of an array. Arithmetic is exact here, so the sum is 1
  itself.
\<close>

theorem get_probe_kernel_unit_sum:
  assumes "np_sum probe = Finite s" and "s \<noteq> 0"
    and "preserves_sum E (shape probe)
           (np_neg (fst (get_CoM E probe))) (np_neg (snd (get_CoM E probe)))"
  shows "map_sum id np_sum (get_probe_kernel E probe) = Inr (Finite 1)"
proof -
  have "np_sum (get_shifted_ar E (normalised probe)
           (np_neg (fst (get_CoM E probe))) (np_neg (snd (get_CoM E probe))))
          = np_sum (normalised probe)"
    using assms(3) by (simp add: preserves_sum_def)
  with np_sum_normalised' [OF assms(1,2)] show ?thesis
    by (simp add: get_probe_kernel_eq)
qed

theorem get_probe_kernel_unit_sum_witness:
  "np_sum probe_121 = Finite 4
   \<and> (4::real) \<noteq> 0
   \<and> preserves_sum kernel_collab (shape probe_121)
       (np_neg (fst (get_CoM kernel_collab probe_121)))
       (np_neg (snd (get_CoM kernel_collab probe_121)))
   \<and> map_sum id np_sum (get_probe_kernel kernel_collab probe_121) = Inr (Finite 1)"
proof -
  have nz: "(4::real) \<noteq> 0" by simp
  show ?thesis
    using get_probe_kernel_unit_sum [OF probe_121_sum nz probe_121_shift_preserves_sum]
      probe_121_sum probe_121_shift_preserves_sum
    by simp
qed

text \<open>
  Claim C3: for every probe with a non-zero sum, and a background array (the Gaussian,
  the logistic annulus) with a non-zero sum, the kernels returned by
  get_probe_kernel_subtrgaussian and get_probe_kernel_logistictrench sum to 0, given
  that the shift preserves the total of an array.
\<close>

theorem background_subtracted_kernels_zero_sum:
  assumes "np_sum probe = Finite s" and "s \<noteq> 0"
    and "preserves_sum E (shape probe)
           (np_neg (fst (get_CoM E probe))) (np_neg (snd (get_CoM E probe)))"
  shows "(np_sum (subtr_gaussian E probe sigma_probe_scale) = Finite g \<and> g \<noteq> 0 \<longrightarrow>
            map_sum id np_sum (get_probe_kernel_subtrgaussian E probe sigma_probe_scale)
              = Inr (Finite 0))
       \<and> (np_sum (logistic_annulus E probe radius trenchwidth blurwidth) = Finite h \<and> h \<noteq> 0 \<longrightarrow>
            map_sum id np_sum (get_probe_kernel_logistictrench E probe radius trenchwidth blurwidth)
              = Inr (Finite 0))"
proof (intro conjI impI)
  assume "np_sum (subtr_gaussian E probe sigma_probe_scale) = Finite g \<and> g \<noteq> 0"
  then have "np_sum (subtrgaussian_template E probe sigma_probe_scale) = Finite 0"
    using np_sum_template [OF assms(1,2), of "subtr_gaussian E probe sigma_probe_scale" g]
    by (simp add: subtrgaussian_template_def)
  moreover have "np_sum (get_shifted_ar E (subtrgaussian_template E probe sigma_probe_scale)
           (np_neg (fst (get_CoM E probe))) (np_neg (snd (get_CoM E probe))))
          = np_sum (subtrgaussian_template E probe sigma_probe_scale)"
    using assms(3) by (simp add: preserves_sum_def subtrgaussian_template_def)
  ultimately show "map_sum id np_sum (get_probe_kernel_subtrgaussian E probe sigma_probe_scale)
              = Inr (Finite 0)"
    by (simp add: get_probe_kernel_subtrgaussian_eq)
next
  assume "np_sum (logistic_annulus E probe radius trenchwidth blurwidth) = Finite h \<and> h \<noteq> 0"
  then have "np_sum (logistictrench_template E probe radius trenchwidth blurwidth) = Finite 0"
    using np_sum_template [OF assms(1,2), of "logistic_annulus E probe radius trenchwidth blurwidth" h]
    by (simp add: logistictrench_template_def)
  moreover have "np_sum (get_shifted_ar E (logistictrench_template E probe radius trenchwidth blurwidth)
           (np_neg (fst (get_CoM E probe))) (np_neg (snd (get_CoM E probe))))
          = np_sum (logistictrench_template E probe radius trenchwidth blurwidth)"
    using assms(3) by (simp add: preserves_sum_def logistictrench_template_def)
  ultimately show "map_sum id np_sum (get_probe_kernel_logistictrench E probe radius trenchwidth blurwidth)
              = Inr (Finite 0)"
    by (simp add: get_probe_kernel_logistictrench_eq)
qed


lemma probe_121_gaussian_sum:
  "np_sum (subtr_gaussian kernel_collab probe_121 (Finite 1)) = Finite (2 * exp (- 1) + 1)"
  by (simp add: probe_121_def kernel_eval)

lemma probe_121_gaussian_sum_nonzero: "2 * exp (- 1) + 1 \<noteq> (0::real)"
  using exp_gt_zero [of "- 1 :: real"] by linarith

lemma probe_121_annulus_sum:
  "np_sum (logistic_annulus kernel_collab probe_121 (Finite 1) (Finite 1) (Finite 4))
     = Finite (1 - 1 / (1 + exp (- 1)) - 1 / (1 + exp (- 2)))"
  by (simp add: probe_121_def kernel_eval)

lemma probe_121_annulus_sum_nonzero:
  "1 - 1 / (1 + exp (- 1)) - 1 / (1 + exp (- 2)) \<noteq> (0::real)"
  using half_less_logistic [of "- 1"] half_less_logistic [of "- 2"] by linarith

theorem background_subtracted_kernels_zero_sum_witness:
  "np_sum probe_121 = Finite 4
   \<and> (4::real) \<noteq> 0
   \<and> preserves_sum kernel_collab (shape probe_121)
       (np_neg (fst (get_CoM kernel_collab probe_121)))
       (np_neg (snd (get_CoM kernel_collab probe_121)))
   \<and> np_sum (subtr_gaussian kernel_collab probe_121 (Finite 1)) = Finite (2 * exp (- 1) + 1)
   \<and> 2 * exp (- 1) + 1 \<noteq> (0::real)
   \<and> np_sum (logistic_annulus kernel_collab probe_121 (Finite 1) (Finite 1) (Finite 4))
       = Finite (1 - 1 / (1 + exp (- 1)) - 1 / (1 + exp (- 2)))
   \<and> 1 - 1 / (1 + exp (- 1)) - 1 / (1 + exp (- 2)) \<noteq> (0::real)
   \<and> map_sum id np_sum (get_probe_kernel_subtrgaussian kernel_collab probe_121 (Finite 1))
       = Inr (Finite 0)
   \<and> map_sum id np_sum
         (get_probe_kernel_logistictrench kernel_collab probe_121 (Finite 1) (Finite 1) (Finite 4))
       = Inr (Finite 0)"
proof -
  have nz: "(4::real) \<noteq> 0" by simp
  note main = background_subtracted_kernels_zero_sum
    [OF probe_121_sum nz probe_121_shift_preserves_sum,
     of "Finite 1" "2 * exp (- 1) + 1" "Finite 1" "Finite 1" "Finite 4"
        "1 - 1 / (1 + exp (- 1)) - 1 / (1 + exp (- 2))"]
  from main probe_121_gaussian_sum probe_121_gaussian_sum_nonzero
  have g: "map_sum id np_sum (get_probe_kernel_subtrgaussian kernel_collab probe_121 (Finite 1))
       = Inr (Finite 0)" by blast
  from main probe_121_annulus_sum probe_121_annulus_sum_nonzero
  have l: "map_sum id np_sum
         (get_probe_kernel_logistictrench kernel_collab probe_121 (Finite 1) (Finite 1) (Finite 4))
       = Inr (Finite 0)" by blast
  show ?thesis
    using g l probe_121_sum nz probe_121_shift_preserves_sum probe_121_gaussian_sum
      probe_121_gaussian_sum_nonzero probe_121_annulus_sum probe_121_annulus_sum_nonzero
    by blast
qed

text \<open>
  Claim C6 (as amended): for an all-zero probe no kernel generator raises. numpy's division
  by the zero sum yields NaN at every item, so each generator returns the shift of an
  array that is NaN at every item: NaN is propagated silently.
\<close>

theorem zero_probe_propagates_NaN:
  assumes "list_all (\<lambda>v. v = Finite 0) (ravel probe)"
  shows "get_probe_kernel E probe =
           Inr (get_shifted_ar E (normalised probe)
                  (np_neg (fst (get_CoM E probe))) (np_neg (snd (get_CoM E probe))))
       \<and> list_all (\<lambda>v. v = NaN) (ravel (normalised probe))
       \<and> get_probe_kernel_subtrgaussian E probe sigma_probe_scale =
           Inr (get_shifted_ar E (subtrgaussian_template E probe sigma_probe_scale)
                  (np_neg (fst (get_CoM E probe))) (np_neg (snd (get_CoM E probe))))
       \<and> list_all (\<lambda>v. v = NaN) (ravel (subtrgaussian_template E probe sigma_probe_scale))
       \<and> get_probe_kernel_logistictrench E probe radius trenchwidth blurwidth =
           Inr (get_shifted_ar E (logistictrench_template E probe radius trenchwidth blurwidth)
                  (np_neg (fst (get_CoM E probe))) (np_neg (snd (get_CoM E probe))))
       \<and> list_all (\<lambda>v. v = NaN)
            (ravel (logistictrench_template E probe radius trenchwidth blurwidth))"
  using normalised_all_zero [OF assms]
  by (simp add: get_probe_kernel_eq get_probe_kernel_subtrgaussian_eq
      get_probe_kernel_logistictrench_eq subtrgaussian_template_def
      logistictrench_template_def template_NaN_left)

theorem zero_probe_propagates_NaN_witness:
  "list_all (\<lambda>v. v = Finite 0) (ravel zero_probe)
   \<and> get_probe_kernel kernel_collab zero_probe =
       Inr (get_shifted_ar kernel_collab (normalised zero_probe)
              (np_neg (fst (get_CoM kernel_collab zero_probe)))
              (np_neg (snd (get_CoM kernel_collab zero_probe))))
   \<and> list_all (\<lambda>v. v = NaN) (ravel (normalised zero_probe))
   \<and> list_all (\<lambda>v. v = NaN) (ravel (subtrgaussian_template kernel_collab zero_probe (Finite 1)))
   \<and> list_all (\<lambda>v. v = NaN)
         (ravel (logistictrench_template kernel_collab zero_probe (Finite 5) (Finite 1) (Finite 1)))"
proof -
  have z: "list_all (\<lambda>v. v = Finite 0) (ravel zero_probe)"
    by (simp add: zero_probe_def array_eval)
  show ?thesis
    using zero_probe_propagates_NaN
      [OF z, of kernel_collab "Finite 1" "Finite 5" "Finite 1" "Finite 1"] z
    by blast
qed

text \<open>
  The claim as stated fails: on a probe of three zeros all three generators return, and
  what they return is NaN throughout.
\<close>

theorem zero_probe_counterexample:
  "map_sum id to_rows (get_probe_kernel kernel_collab zero_probe) = Inr [[NaN, NaN, NaN]]
   \<and> map_sum id to_rows (get_probe_kernel_subtrgaussian kernel_collab zero_probe (Finite 1))
       = Inr [[NaN, NaN, NaN]]
   \<and> map_sum id to_rows
         (get_probe_kernel_logistictrench kernel_collab zero_probe (Finite 5) (Finite 1) (Finite 1))
       = Inr [[NaN, NaN, NaN]]"
  by (simp add: get_probe_kernel_def get_probe_kernel_subtrgaussian_def
      get_probe_kernel_logistictrench_def zero_probe_def kernel_eval)

lemma logistic_finite:
  assumes "b \<noteq> 0"
  shows "is_finite (logistic (Finite v) (Finite b))"
  using assms by (simp add: logistic_def)

lemma annulus_zero_width_finite:
  assumes "is_finite (fst (get_CoM E probe))" and "is_finite (snd (get_CoM E probe))"
    and "is_finite radius" and "is_finite blurwidth" and "blurwidth \<noteq> Finite 0"
  shows "list_all (\<lambda>v. v = Finite 0)
           (ravel (logistic_annulus E probe radius (Finite 0) blurwidth))"
proof -
  from assms(1,2) obtain x y where c: "get_CoM E probe = (Finite x, Finite y)"
    by (cases "get_CoM E probe"; cases "fst (get_CoM E probe)"; cases "snd (get_CoM E probe)") auto
  from assms(3) obtain r where r: "radius = Finite r" by (cases radius) auto
  from assms(4,5) obtain b where b: "blurwidth = Finite b" "b \<noteq> 0" by (cases blurwidth) auto
  have item: "np_sub (logistic (np_sub (np_sqrt
                 (np_add (np_square (np_sub (Finite (real i)) (Finite x)))
                    (np_square (np_sub (Finite (real j)) (Finite y))))) (Finite r)) (Finite b))
               (logistic (np_sub (np_sqrt
                 (np_add (np_square (np_sub (Finite (real i)) (Finite x)))
                    (np_square (np_sub (Finite (real j)) (Finite y))))) (Finite r)) (Finite b))
             = Finite 0" for i j
  proof -
    have "0 \<le> (real i - x) * (real i - x) + (real j - y) * (real j - y)" by simp
    then obtain v where "np_sub (np_sqrt
                 (np_add (np_square (np_sub (Finite (real i)) (Finite x)))
                    (np_square (np_sub (Finite (real j)) (Finite y))))) (Finite r) = Finite v"
      by (simp add: np_sub_def np_square_def)
    moreover from logistic_finite [OF b(2), of v] obtain l where
      "logistic (Finite v) (Finite b) = Finite l"
      by (cases "logistic (Finite v) (Finite b)") auto
    ultimately show ?thesis by (simp add: np_sub_def)
  qed
  show ?thesis
    unfolding c r b(1)
    by (simp add: list_all_ravel logistic_annulus_def c radius2_def meshgrid_qx_def
        meshgrid_qy_def item)
qed

text \<open>
  Claim C7 (as amended): with trenchwidth = 0 the two logistic terms are the same value,
  so every item of the annulus is 0 or NaN, and it is exactly 0 when the centre of mass,
  the radius and the blurwidth are finite and the blurwidth is not zero. The sum of the
  annulus is then 0 or NaN, the normalisation divides by it, and the normalised annulus
  and the kernel before the shift are NaN at every item, for every probe, radius and
  blurwidth. The call returns the shift of that array; with a shift that maps an array
  that is NaN throughout to such an array, the returned kernel is NaN at every item.
\<close>

theorem zero_width_trench_all_NaN:
  "list_all (\<lambda>v. v = Finite 0 \<or> v = NaN)
     (ravel (logistic_annulus E probe radius (Finite 0) blurwidth))
   \<and> (is_finite (fst (get_CoM E probe)) \<and> is_finite (snd (get_CoM E probe))
        \<and> is_finite radius \<and> is_finite blurwidth \<and> blurwidth \<noteq> Finite 0 \<longrightarrow>
        list_all (\<lambda>v. v = Finite 0)
          (ravel (logistic_annulus E probe radius (Finite 0) blurwidth)))
   \<and> (np_sum (logistic_annulus E probe radius (Finite 0) blurwidth) = Finite 0
        \<or> np_sum (logistic_annulus E probe radius (Finite 0) blurwidth) = NaN)
   \<and> list_all (\<lambda>v. v = NaN)
       (ravel (normalised (logistic_annulus E probe radius (Finite 0) blurwidth)))
   \<and> list_all (\<lambda>v. v = NaN)
       (ravel (logistictrench_template E probe radius (Finite 0) blurwidth))
   \<and> get_probe_kernel_logistictrench E probe radius (Finite 0) blurwidth =
       Inr (get_shifted_ar E (logistictrench_template E probe radius (Finite 0) blurwidth)
              (np_neg (fst (get_CoM E probe))) (np_neg (snd (get_CoM E probe))))
   \<and> (propagates_NaN E (shape probe)
          (np_neg (fst (get_CoM E probe))) (np_neg (snd (get_CoM E probe))) \<longrightarrow>
        list_all (\<lambda>v. v = NaN)
          (ravel (get_shifted_ar E (logistictrench_template E probe radius (Finite 0) blurwidth)
                    (np_neg (fst (get_CoM E probe))) (np_neg (snd (get_CoM E probe))))))"
proof -
  let ?A = "logistic_annulus E probe radius (Finite 0) blurwidth"
  let ?T = "logistictrench_template E probe radius (Finite 0) blurwidth"
  have n: "list_all (\<lambda>v. v = NaN) (ravel (normalised ?A))"
    by (rule normalised_zero_or_NaN [OF annulus_zero_width])
  have sm: "np_sum ?A = Finite 0 \<or> np_sum ?A = NaN"
    unfolding np_sum_def using annulus_zero_width [of E probe radius blurwidth]
    by (intro foldl_np_add_zero_or_NaN) (simp_all add: list_all_iff)
  have t: "list_all (\<lambda>v. v = NaN) (ravel ?T)"
    using n by (simp add: logistictrench_template_def template_NaN_right)
  have s: "shape ?T = shape probe" by (simp add: logistictrench_template_def)
  have p: "list_all (\<lambda>v. v = NaN)
             (ravel (get_shifted_ar E ?T (np_neg (fst (get_CoM E probe)))
                       (np_neg (snd (get_CoM E probe)))))"
    if "propagates_NaN E (shape probe)
          (np_neg (fst (get_CoM E probe))) (np_neg (snd (get_CoM E probe)))"
    using that t s unfolding propagates_NaN_def by blast
  from n sm t p annulus_zero_width [of E probe radius blurwidth]
    annulus_zero_width_finite [of E probe radius blurwidth]
  show ?thesis by (simp add: get_probe_kernel_logistictrench_eq)
qed

lemma probe_121_shift_propagates_NaN:
  "propagates_NaN kernel_collab (shape probe_121)
     (np_neg (fst (get_CoM kernel_collab probe_121)))
     (np_neg (snd (get_CoM kernel_collab probe_121)))"
  unfolding probe_121_CoM propagates_NaN_def
proof (intro allI impI, elim conjE)
  fix a :: "npfloat ndarray"
  assume s: "shape a = shape probe_121"
    and n: "list_all (\<lambda>v. v = NaN) (ravel a)"
  from s have s': "shape a = (1, 3)" by (simp add: probe_121_def of_rows_def)
  from n have "item a i j = NaN" if "i < 1" and "j < 3" for i j
    using that unfolding ravel_def indices_def s' by (auto simp: list_all_iff)
  then have "item a 0 0 = NaN" "item a 0 1 = NaN" "item a 0 2 = NaN" by simp_all
  then show "list_all (\<lambda>v. v = NaN)
               (ravel (get_shifted_ar kernel_collab a (np_neg (fst (Finite 0, Finite 1)))
                         (np_neg (snd (Finite 0, Finite 1)))))"
    unfolding ravel_def indices_def get_shifted_ar_def s'
    by (simp add: kernel_collab_def roll_def floor_minus numeral_2_eq_2 numeral_3_eq_3)
qed

theorem zero_width_trench_all_NaN_witness:
  "is_finite (fst (get_CoM kernel_collab probe_121))
   \<and> is_finite (snd (get_CoM kernel_collab probe_121))
   \<and> is_finite (Finite 5) \<and> is_finite (Finite (1 / 1000000))
   \<and> Finite (1 / 1000000) \<noteq> Finite 0
   \<and> propagates_NaN kernel_collab (shape probe_121)
       (np_neg (fst (get_CoM kernel_collab probe_121)))
       (np_neg (snd (get_CoM kernel_collab probe_121)))
   \<and> list_all (\<lambda>v. v = Finite 0)
       (ravel (logistic_annulus kernel_collab probe_121 (Finite 5) (Finite 0)
                 (Finite (1 / 1000000))))
   \<and> list_all (\<lambda>v. v = NaN)
       (ravel (get_shifted_ar kernel_collab
                 (logistictrench_template kernel_collab probe_121 (Finite 5) (Finite 0)
                    (Finite (1 / 1000000)))
                 (np_neg (fst (get_CoM kernel_collab probe_121)))
                 (np_neg (snd (get_CoM kernel_collab probe_121)))))"
proof -
  have f: "is_finite (fst (get_CoM kernel_collab probe_121))"
    "is_finite (snd (get_CoM kernel_collab probe_121))"
    by (simp_all add: probe_121_CoM)
  have b: "Finite (1 / 1000000) \<noteq> Finite 0" by simp
  have i: "is_finite (Finite 5)" "is_finite (Finite (1 / 1000000))" by simp_all
  note inst = zero_width_trench_all_NaN
    [of kernel_collab probe_121 "Finite 5" "Finite (1 / 1000000)"]
  from inst f i b have z: "list_all (\<lambda>v. v = Finite 0)
       (ravel (logistic_annulus kernel_collab probe_121 (Finite 5) (Finite 0)
                 (Finite (1 / 1000000))))" by blast
  from inst probe_121_shift_propagates_NaN have k: "list_all (\<lambda>v. v = NaN)
       (ravel (get_shifted_ar kernel_collab
                 (logistictrench_template kernel_collab probe_121 (Finite 5) (Finite 0)
                    (Finite (1 / 1000000)))
                 (np_neg (fst (get_CoM kernel_collab probe_121)))
                 (np_neg (snd (get_CoM kernel_collab probe_121)))))" by blast
  from f i b probe_121_shift_propagates_NaN z k show ?thesis by blast
qed

text \<open>
  The claim as stated fails: for radius 5, trenchwidth 0 and blurwidth 1e-6 the annulus
  is zero, but the kernel returned is NaN throughout, while the plain kernel of the same
  probe is (1/2, 1/4, 1/4).
\<close>

theorem zero_width_trench_counterexample:
  "to_rows (logistic_annulus kernel_collab probe_121 (Finite 5) (Finite 0) (Finite (1 / 1000000)))
     = [[Finite 0, Finite 0, Finite 0]]
   \<and> map_sum id to_rows
         (get_probe_kernel_logistictrench kernel_collab probe_121 (Finite 5) (Finite 0)
            (Finite (1 / 1000000)))
       = Inr [[NaN, NaN, NaN]]
   \<and> map_sum id to_rows (get_probe_kernel kernel_collab probe_121)
       = Inr [[Finite (1 / 2), Finite (1 / 4), Finite (1 / 4)]]"
  by (simp add: get_probe_kernel_def get_probe_kernel_logistictrench_def probe_121_def
      kernel_eval)

subsection \<open>The probe averager\<close>



text \<open>
  Claim C4: when the loop ends with the accumulated probe, the call returns that probe
  multiplied item by item with the mask
  \<open>binary_dilation (binary_opening (probe > max(probe)*mask_threshold, mask_opening), mask_expansion)\<close>:
  the threshold is strict and taken against the greatest item of the probe, the opening
  comes before the dilation, every item at which the mask is false is exactly zero in the
  output, and every other item is the probe's.
\<close>

theorem masked_output:
  assumes "read_DP dc 0 0 = Inr probe0"
    and "average_loop E dc [1..<R_N dc] probe0 [(0, 0)] = (Inr probe, seen)"
    and "np_max probe = Inr probe_max"
  shows "result (get_average_probe_from_vacuum_scan E dc mask_threshold mask_expansion mask_opening)
           = Inr (apply_mask probe
                    (probe_mask E probe probe_max mask_threshold mask_expansion mask_opening))
       \<and> probe_mask E probe probe_max mask_threshold mask_expansion mask_opening
           = binary_dilation E
               (binary_opening E (np_map (\<lambda>v. probe_max * mask_threshold < v) probe) mask_opening)
               mask_expansion
       \<and> probe_max = Max (set (ravel probe))
       \<and> (\<forall>i j. item (np_map (\<lambda>v. probe_max * mask_threshold < v) probe) i j
                  \<longleftrightarrow> probe_max * mask_threshold < item probe i j)
       \<and> (\<forall>i j. \<not> item (probe_mask E probe probe_max mask_threshold mask_expansion mask_opening) i j
              \<longrightarrow> item (apply_mask probe
                          (probe_mask E probe probe_max mask_threshold mask_expansion mask_opening))
                     i j = 0)
       \<and> (\<forall>i j. item (probe_mask E probe probe_max mask_threshold mask_expansion mask_opening) i j
              \<longrightarrow> item (apply_mask probe
                          (probe_mask E probe probe_max mask_threshold mask_expansion mask_opening))
                     i j = item probe i j)"
proof (intro conjI)
  show "result (get_average_probe_from_vacuum_scan E dc mask_threshold mask_expansion mask_opening)
           = Inr (apply_mask probe
                    (probe_mask E probe probe_max mask_threshold mask_expansion mask_opening))"
    using assms by (simp add: get_average_probe_from_vacuum_scan_def after_loop_def mask_probe_def)
  show "probe_mask E probe probe_max mask_threshold mask_expansion mask_opening
           = binary_dilation E
               (binary_opening E (np_map (\<lambda>v. probe_max * mask_threshold < v) probe) mask_opening)
               mask_expansion"
    by (simp add: probe_mask_def)
  show "probe_max = Max (set (ravel probe))"
  proof (cases "ravel probe = []")
    case True
    with assms(3) show ?thesis by (simp add: np_max_def)
  next
    case False
    from np_max_Max [OF False] assms(3) show ?thesis by simp
  qed
  show "\<forall>i j. item (np_map (\<lambda>v. probe_max * mask_threshold < v) probe) i j
                  \<longleftrightarrow> probe_max * mask_threshold < item probe i j"
    by simp
  show "\<forall>i j. \<not> item (probe_mask E probe probe_max mask_threshold mask_expansion mask_opening) i j
              \<longrightarrow> item (apply_mask probe
                          (probe_mask E probe probe_max mask_threshold mask_expansion mask_opening))
                     i j = 0"
    by (simp add: apply_mask_def)
  show "\<forall>i j. item (probe_mask E probe probe_max mask_threshold mask_expansion mask_opening) i j
              \<longrightarrow> item (apply_mask probe
                          (probe_mask E probe probe_max mask_threshold mask_expansion mask_opening))
                     i j = item probe i j"
    by (simp add: apply_mask_def)
qed

text \<open>
  On a scan of 2 by 2 positions that repeats the pattern (1, 10, 1), with the stand-in
  collaborators: the greatest item is 10, the threshold 2, and the output (0, 10, 0).
\<close>

theorem masked_output_witness:
  "read_DP (repeated_cube 2 2 [[1, 10, 1]]) 0 0 = Inr (of_rows [[1, 10, 1]])
   \<and> average_loop scan_collab (repeated_cube 2 2 [[1, 10, 1]])
         [1..<R_N (repeated_cube 2 2 [[1, 10, 1]])] (of_rows [[1, 10, 1]]) [(0, 0)]
       = (Inr (of_rows [[1, 10, 1]]), [(0, 0), (0, 1), (1, 0), (1, 1)])
   \<and> np_max (of_rows [[1, 10, 1]]) = Inr 10
   \<and> to_rows (probe_mask scan_collab (of_rows [[1, 10, 1]]) 10 (2 / 10) 12 3)
       = [[False, True, False]]
   \<and> map_sum id to_rows
         (result (get_average_probe_from_vacuum_scan scan_collab (repeated_cube 2 2 [[1, 10, 1]])
                    (2 / 10) 12 3))
       = Inr [[0, 10, 0]]"
proof -
  let ?dc = "repeated_cube 2 2 [[1, 10, 1]]"
  let ?P = "of_rows [[1, 10, 1::real]]"
  have P: "pattern ?dc Rx Ry = ?P" for Rx Ry
    by (simp add: pattern_def repeated_cube_def of_rows_def)
  have r: "read_DP ?dc 0 0 = Inr ?P"
    unfolding read_DP_def P by (simp add: repeated_cube_def)
  have l: "average_loop scan_collab ?dc [1..<R_N ?dc] ?P [(0, 0)]
             = (Inr ?P, [(0, 0), (0, 1), (1, 0), (1, 1)])"
  proof -
    have "average_loop scan_collab ?dc [1..<R_N ?dc] ?P [(0, 0)]
            = (Inr ?P, [(0, 0)] @ map (\<lambda>n. (n div R_Nx ?dc, n mod R_Nx ?dc)) [1..<R_N ?dc])"
    proof (rule average_loop_identical)
      show "0 < R_Nx ?dc" by (simp add: repeated_cube_def)
      show "get_shift scan_collab ?P ?P = (0, 0)" by (simp add: scan_collab_def)
      show "get_shifted_ar scan_collab ?P 0 0 = ?P"
        by (simp add: get_shifted_ar_def scan_collab_def of_rows_def)
      show "\<forall>n\<in>set [1..<R_N ?dc]. 0 < n \<and> n div R_Nx ?dc < R_Nx ?dc
              \<and> n mod R_Nx ?dc < R_Ny ?dc \<and> pattern ?dc (n div R_Nx ?dc) (n mod R_Nx ?dc) = ?P"
        unfolding P by (simp add: repeated_cube_def R_N_def less_mult_imp_div_less)
    qed
    also have "[(0, 0)] @ map (\<lambda>n. (n div R_Nx ?dc, n mod R_Nx ?dc)) [1..<R_N ?dc]
                 = [(0, 0), (0, 1), (1, 0), (1, 1)]"
      by (simp add: repeated_cube_def R_N_def upt_conv_Cons)
    finally show ?thesis .
  qed
  have m: "np_max ?P = Inr 10"
    by (simp add: np_max_def ravel_def indices_def of_rows_def)
  have k: "to_rows (probe_mask scan_collab ?P 10 (2 / 10) 12 3) = [[False, True, False]]"
    by (simp add: probe_mask_def binary_opening_def binary_dilation_def scan_collab_def
        np_map_def of_rows_def to_rows_def)
  have a: "to_rows (apply_mask ?P (probe_mask scan_collab ?P 10 (2 / 10) 12 3)) = [[0, 10, 0]]"
    by (simp add: probe_mask_def binary_opening_def binary_dilation_def scan_collab_def
        np_map_def np_map2_def apply_mask_def of_rows_def to_rows_def)
  from masked_output [OF r l m, of "2 / 10" 12 3]
  have "result (get_average_probe_from_vacuum_scan scan_collab ?dc (2 / 10) 12 3)
          = Inr (apply_mask ?P (probe_mask scan_collab ?P 10 (2 / 10) 12 3))"
    by blast
  with a have "map_sum id to_rows
         (result (get_average_probe_from_vacuum_scan scan_collab ?dc (2 / 10) 12 3))
       = Inr [[0, 10, 0]]" by simp
  with r l m k show ?thesis by blast
qed






text \<open>
  For the scans on which every read succeeds, the square ones: a scan that repeats one
  pattern \<open>P\<close> at every position, with a shift estimate of \<open>(0, 0)\<close> for \<open>P\<close> against
  itself and a shift by \<open>(0, 0)\<close> that leaves \<open>P\<close> as it is, returns \<open>P\<close> times its mask.
\<close>

lemma identical_patterns_square_scan:
  assumes "0 < R_Nx dc" and "R_Ny dc = R_Nx dc"
    and "\<forall>Rx < R_Nx dc. \<forall>Ry < R_Ny dc. pattern dc Rx Ry = P"
    and "get_shift E P P = (0, 0)"
    and "get_shifted_ar E P 0 0 = P"
  shows "result (get_average_probe_from_vacuum_scan E dc mask_threshold mask_expansion mask_opening)
           = mask_probe E P mask_threshold mask_expansion mask_opening"
proof -
  from assms(1-3) have r0: "read_DP dc 0 0 = Inr P" by (simp add: read_DP_def)
  have "\<forall>n\<in>set [1..<R_N dc]. 0 < n \<and> n div R_Nx dc < R_Nx dc \<and> n mod R_Nx dc < R_Ny dc
          \<and> pattern dc (n div R_Nx dc) (n mod R_Nx dc) = P"
    using assms(1-3) by (simp add: R_N_def less_mult_imp_div_less)
  from average_loop_identical [OF assms(1) this assms(4,5), of "[(0, 0)]"] r0
  show ?thesis
    by (simp add: get_average_probe_from_vacuum_scan_def after_loop_def)
qed

lemma scan_collab_aligned:
  "get_shift scan_collab a a = (0, 0)" "get_shifted_ar scan_collab a 0 0 = a"
  by (simp_all add: scan_collab_def get_shifted_ar_def)

text \<open>
  Claim C8 says that a scan of N identical, aligned patterns returns that pattern times
  its mask for every N. The code does so on square scans only (lemma
  \<open>identical_patterns_square_scan\<close>). On the scan of 1 by 2 positions that repeats the
  pattern (1, 10, 1), with collaborators that meet the claim's hypotheses, the position
  requested for \<open>n = 1\<close> is \<open>(1 div 1, 1 mod 1) = (1, 0)\<close>, a row the scan does not
  have, and the call raises IndexError.
\<close>

theorem identical_patterns_scan_1x2:
  "R_N (repeated_cube 1 2 [[1, 10, 1]]) = 2
   \<and> pattern (repeated_cube 1 2 [[1, 10, 1]]) 0 0 = of_rows [[1, 10, 1]]
   \<and> pattern (repeated_cube 1 2 [[1, 10, 1]]) 0 1 = of_rows [[1, 10, 1]]
   \<and> get_shift scan_collab (of_rows [[1, 10, 1]]) (of_rows [[1, 10, 1]]) = (0, 0)
   \<and> get_shifted_ar scan_collab (of_rows [[1, 10, 1]]) 0 0 = of_rows [[1, 10, 1]]
   \<and> result (get_average_probe_from_vacuum_scan scan_collab (repeated_cube 1 2 [[1, 10, 1]])
               (2 / 10) 12 3)
       = Inl IndexError
   \<and> reads (get_average_probe_from_vacuum_scan scan_collab (repeated_cube 1 2 [[1, 10, 1]])
              (2 / 10) 12 3)
       = [(0, 0), (1, 0)]"
proof -
  have P: "pattern (repeated_cube 1 2 [[1, 10, 1]]) Rx Ry = of_rows [[1, 10, 1]]" for Rx Ry
    by (simp add: pattern_def repeated_cube_def of_rows_def)
  have N: "R_N (repeated_cube 1 2 [[1, 10, 1]]) = 2"
    by (simp add: R_N_def repeated_cube_def)
  have r: "result (get_average_probe_from_vacuum_scan scan_collab (repeated_cube 1 2 [[1, 10, 1]])
               (2 / 10) 12 3) = Inl IndexError"
    by (simp add: repeated_cube_def scan_eval)
  have s: "reads (get_average_probe_from_vacuum_scan scan_collab (repeated_cube 1 2 [[1, 10, 1]])
              (2 / 10) 12 3) = [(0, 0), (1, 0)]"
    by (simp add: repeated_cube_def scan_eval)
  from P N r s scan_collab_aligned [of "of_rows [[1, 10, 1]]"] show ?thesis by simp
qed

theorem identical_patterns_scan_1x2_witness:
  "isl (result (get_average_probe_from_vacuum_scan scan_collab (repeated_cube 1 2 [[1, 10, 1]])
                  (2 / 10) 12 3))"
  using identical_patterns_scan_1x2 by simp

text \<open>
  Claim C9 (as amended): a scan without positions (N = 0) raises IndexError at the read
  of pattern 0. A scan of one position (N = 1) does not: the loop has no iteration, and
  the call returns the single pattern times its mask (np.max raises ValueError only when
  the pattern has no pixel).
\<close>

theorem fewer_than_two_positions:
  "(R_N dc = 0 \<longrightarrow>
      result (get_average_probe_from_vacuum_scan E dc mask_threshold mask_expansion mask_opening)
        = Inl IndexError)
   \<and> (R_N dc = 1 \<longrightarrow>
        result (get_average_probe_from_vacuum_scan E dc mask_threshold mask_expansion mask_opening)
          = mask_probe E (pattern dc 0 0) mask_threshold mask_expansion mask_opening
        \<and> reads (get_average_probe_from_vacuum_scan E dc mask_threshold mask_expansion
                    mask_opening) = [(0, 0)])
   \<and> (R_N dc = 1 \<and> 0 < Q_Nx dc \<and> 0 < Q_Ny dc \<longrightarrow>
        result (get_average_probe_from_vacuum_scan E dc mask_threshold mask_expansion mask_opening)
          = Inr (apply_mask (pattern dc 0 0)
                   (probe_mask E (pattern dc 0 0) (Max (set (ravel (pattern dc 0 0))))
                      mask_threshold mask_expansion mask_opening)))"
proof -
  let ?run = "get_average_probe_from_vacuum_scan E dc mask_threshold mask_expansion mask_opening"
  have none: "result ?run = Inl IndexError" if "R_N dc = 0"
  proof -
    from that have "read_DP dc 0 0 = Inl IndexError" by (auto simp: R_N_def read_DP_def)
    then show ?thesis by (simp add: get_average_probe_from_vacuum_scan_def)
  qed
  have one: "result ?run = mask_probe E (pattern dc 0 0) mask_threshold mask_expansion mask_opening
             \<and> reads ?run = [(0, 0)]" if N: "R_N dc = 1"
  proof -
    from N have "read_DP dc 0 0 = Inr (pattern dc 0 0)" by (simp add: R_N_def read_DP_def)
    with N show ?thesis
      by (simp add: get_average_probe_from_vacuum_scan_def after_loop_def)
  qed
  have returns: "result ?run
          = Inr (apply_mask (pattern dc 0 0)
                   (probe_mask E (pattern dc 0 0) (Max (set (ravel (pattern dc 0 0))))
                      mask_threshold mask_expansion mask_opening))"
    if a: "R_N dc = 1 \<and> 0 < Q_Nx dc \<and> 0 < Q_Ny dc"
  proof -
    from a have "ravel (pattern dc 0 0) \<noteq> []" by (intro ravel_nonempty) simp_all
    from np_max_Max [OF this] one a show ?thesis by (simp add: mask_probe_def)
  qed
  from none one returns show ?thesis by blast
qed

theorem fewer_than_two_positions_witness:
  "R_N (repeated_cube 0 3 [[1, 10, 1]]) = 0
   \<and> result (get_average_probe_from_vacuum_scan scan_collab (repeated_cube 0 3 [[1, 10, 1]])
               (2 / 10) 12 3) = Inl IndexError
   \<and> R_N (repeated_cube 1 1 [[1, 10, 1]]) = 1
   \<and> 0 < Q_Nx (repeated_cube 1 1 [[1, 10, 1]])
   \<and> 0 < Q_Ny (repeated_cube 1 1 [[1, 10, 1]])
   \<and> reads (get_average_probe_from_vacuum_scan scan_collab (repeated_cube 1 1 [[1, 10, 1]])
              (2 / 10) 12 3) = [(0, 0)]
   \<and> result (get_average_probe_from_vacuum_scan scan_collab (repeated_cube 1 1 [[1, 10, 1]])
               (2 / 10) 12 3)
       = Inr (apply_mask (pattern (repeated_cube 1 1 [[1, 10, 1]]) 0 0)
                (probe_mask scan_collab (pattern (repeated_cube 1 1 [[1, 10, 1]]) 0 0)
                   (Max (set (ravel (pattern (repeated_cube 1 1 [[1, 10, 1]]) 0 0))))
                   (2 / 10) 12 3))"
proof -
  have z: "R_N (repeated_cube 0 3 [[1, 10, 1]]) = 0" by (simp add: R_N_def repeated_cube_def)
  have o: "R_N (repeated_cube 1 1 [[1, 10, 1]]) = 1" by (simp add: R_N_def repeated_cube_def)
  have q: "0 < Q_Nx (repeated_cube 1 1 [[1, 10, 1]])" "0 < Q_Ny (repeated_cube 1 1 [[1, 10, 1]])"
    by (simp_all add: repeated_cube_def of_rows_def)
  note t0 = fewer_than_two_positions [of "repeated_cube 0 3 [[1, 10, 1]]" scan_collab "2 / 10" 12 3]
  note t1 = fewer_than_two_positions [of "repeated_cube 1 1 [[1, 10, 1]]" scan_collab "2 / 10" 12 3]
  from t0 z have a: "result (get_average_probe_from_vacuum_scan scan_collab
      (repeated_cube 0 3 [[1, 10, 1]]) (2 / 10) 12 3) = Inl IndexError" by blast
  from t1 o have b: "reads (get_average_probe_from_vacuum_scan scan_collab
      (repeated_cube 1 1 [[1, 10, 1]]) (2 / 10) 12 3) = [(0, 0)]" by blast
  from t1 o q have c: "result (get_average_probe_from_vacuum_scan scan_collab
      (repeated_cube 1 1 [[1, 10, 1]]) (2 / 10) 12 3)
       = Inr (apply_mask (pattern (repeated_cube 1 1 [[1, 10, 1]]) 0 0)
                (probe_mask scan_collab (pattern (repeated_cube 1 1 [[1, 10, 1]]) 0 0)
                   (Max (set (ravel (pattern (repeated_cube 1 1 [[1, 10, 1]]) 0 0))))
                   (2 / 10) 12 3))" by blast
  from z a o q b c show ?thesis by blast
qed

text \<open>
  The claim as stated fails at N = 1: on the scan of the single pattern (1, 10, 1) the
  call raises nothing.
\<close>

theorem single_position_counterexample:
  "R_N (repeated_cube 1 1 [[1, 10, 1]]) = 1
   \<and> \<not> isl (result (get_average_probe_from_vacuum_scan scan_collab
                      (repeated_cube 1 1 [[1, 10, 1]]) (2 / 10) 12 3))
   \<and> reads (get_average_probe_from_vacuum_scan scan_collab (repeated_cube 1 1 [[1, 10, 1]])
              (2 / 10) 12 3) = [(0, 0)]"
  by (simp add: repeated_cube_def scan_eval)

text \<open>
  Claim C10: for every input, the stubs get_average_probe_from_ROI and
  get_synthetic_probe return None; they raise nothing, request no pattern of the
  datacube and leave the datacube as it was.
\<close>

theorem stubs_return_None:
  "result (get_average_probe_from_ROI dc args) = Inr None
   \<and> reads (get_average_probe_from_ROI dc args) = []
   \<and> cube (get_average_probe_from_ROI dc args) = dc
   \<and> result (get_synthetic_probe dc args') = Inr None
   \<and> reads (get_synthetic_probe dc args') = []
   \<and> cube (get_synthetic_probe dc args') = dc"
  by (simp add: get_average_probe_from_ROI_def get_synthetic_probe_def)

end
